theory Spec2Isabelle
  imports Complex_Main
begin

section \<open>Event filters (psychopy/iohub/devices/eventfilters.py)\<close>

text \<open>
  Numeric samples (numpy floats in the source) are modelled as exact reals; rounding is
  outside the model. A value that numpy would report as \<open>nan\<close> or \<open>inf\<close> is not a
  real: the model returns the error value \<open>NonFinite\<close> in its place.
\<close>

datatype error = ValueError | TypeError | IndexError | AttributeError
  | ZeroDivisionError | NonFinite

text \<open>A Python value held in an event field or returned by a filter: a float, or a
  numpy array of floats (what \<open>np.convolve\<close> returns).\<close>

datatype pyval = Num real | Arr "real list"

text \<open>
  Events are Python lists, mutated in place when \<open>inplace\<close> is set, and the same list
  object can sit in several deques at once. They live in a store, addressed by reference.
\<close>

type_synonym ref = nat
type_synonym heap = "ref \<Rightarrow> pyval list"

text \<open>What \<open>add\<close> receives: an event in list form, or a bare number.\<close>

datatype sample = Scalar real | Event ref

text \<open>What \<open>add\<close> returns when the window is full: the tapped event (\<open>None\<close> for bare
  numbers) and the filtered value.\<close>

type_synonym add_result = "sample option \<times> pyval"

subsection \<open>Ring buffer\<close>

text \<open>
  Modelled from the spec: \<open>NumPyRingBuffer\<close> is defined in psychopy.iohub.util, outside
  the two modules verified here. The spec (section 3) describes it as a fixed-capacity circular buffer
  of numeric samples with append-overwrite-oldest, an is-full query, ordered read-out
  (oldest first) and clear; the capacity is set at construction. The buffered samples
  are kept oldest first.
\<close>

record NumPyRingBuffer =
  max_size :: nat
  elements :: "real list"

definition NumPyRingBuffer_new :: "nat \<Rightarrow> NumPyRingBuffer" where
  "NumPyRingBuffer_new n = \<lparr>max_size = n, elements = []\<rparr>"

definition rb_append :: "NumPyRingBuffer \<Rightarrow> real \<Rightarrow> NumPyRingBuffer" where
  "rb_append b x =
     (let ys = elements b @ [x] in b\<lparr>elements := drop (length ys - max_size b) ys\<rparr>)"

definition rb_isFull :: "NumPyRingBuffer \<Rightarrow> bool" where
  "rb_isFull b = (length (elements b) = max_size b)"


definition rb_clear :: "NumPyRingBuffer \<Rightarrow> NumPyRingBuffer" where
  "rb_clear b = b\<lparr>elements := []\<rparr>"

text \<open>The mean of no samples is \<open>nan\<close> in numpy.\<close>

definition rb_mean :: "NumPyRingBuffer \<Rightarrow> error + real" where
  "rb_mean b =
     (if elements b = [] then Inl NonFinite
      else Inr (sum_list (elements b) / real (length (elements b))))"

text \<open>The slice \<open>buffer[i:j]\<close> with \<open>0 \<le> i \<le> j\<close>.\<close>

definition rb_slice :: "NumPyRingBuffer \<Rightarrow> nat \<Rightarrow> nat \<Rightarrow> real list" where
  "rb_slice b i j = drop i (take j (elements b))"

subsection \<open>collections.deque with a maximum length\<close>

record deque =
  maxlen :: nat
  items :: "sample list"

definition deque_new :: "nat \<Rightarrow> deque" where
  "deque_new n = \<lparr>maxlen = n, items = []\<rparr>"

definition deque_append :: "deque \<Rightarrow> sample \<Rightarrow> deque" where
  "deque_append d e =
     (let ys = items d @ [e] in d\<lparr>items := drop (length ys - maxlen d) ys\<rparr>)"

text \<open>Indexing; a negative index counts from the right end.\<close>

definition deque_get :: "deque \<Rightarrow> int \<Rightarrow> error + sample" where
  "deque_get d i =
     (let n = int (length (items d)); j = (if i < 0 then i + n else i)
      in if 0 \<le> j \<and> j < n then Inr (items d ! nat j) else Inl IndexError)"

subsection \<open>MovingWindowFilter\<close>

datatype knot = KnotStr string | KnotIndex int

text \<open>The fields of the class. A subclass that adds fields is a record extension, and
  the methods below are typed so that they apply to every subclass.\<close>

record MovingWindowFilter =
  inplace :: bool
  active_index :: int
  event_field_index :: "nat option"
  events :: "deque option"
  filtering_buffer :: NumPyRingBuffer

text \<open>
  \<open>MovingWindowFilter.__init__\<close>. The keyword arguments are passed as parameters:
  \<open>inpl\<close> is the truth value of \<open>inplace\<close>, \<open>len\<close> is \<open>length\<close>; \<open>field\<close> is
  the index that the field-name registry (an external collaborator) gives for
  \<open>event_type\<close> and \<open>event_field_name\<close>, and \<open>None\<close> when they are not both given.
  The window capacity is at least 1 in the spec; for a negative \<open>len\<close> the buffers are
  given capacity 0 here, and no theorem below depends on that case.
\<close>

definition MovingWindowFilter_init ::
  "bool \<Rightarrow> knot \<Rightarrow> int \<Rightarrow> nat option \<Rightarrow> error + MovingWindowFilter" where
  "MovingWindowFilter_init inpl knot_pos len field =
     (case (case knot_pos of
              KnotStr s \<Rightarrow>
                if s = ''center'' \<and> len mod 2 = 0 then Inl ValueError
                else if s = ''center'' then Inr (len div 2)
                else if s = ''latest'' then Inr 0
                else if s = ''oldest'' then Inr (len - 1)
                else Inl ValueError
            | KnotIndex k \<Rightarrow>
                if k < 0 \<or> k \<ge> len then Inl ValueError else Inr k) of
        Inl e \<Rightarrow> Inl e
      | Inr idx \<Rightarrow>
          Inr \<lparr>inplace = inpl, active_index = idx, event_field_index = field,
               events = (case field of None \<Rightarrow> None
                         | Some _ \<Rightarrow> Some (deque_new (nat len))),
               filtering_buffer = NumPyRingBuffer_new (nat len)\<rparr>)"

text \<open>The base reduction: the mean of the window.\<close>

definition MovingWindowFilter_filteredValue ::
  "'a MovingWindowFilter_scheme \<Rightarrow> error + pyval" where
  "MovingWindowFilter_filteredValue self =
     (case rb_mean (filtering_buffer self) of Inl e \<Rightarrow> Inl e | Inr m \<Rightarrow> Inr (Num m))"

definition MovingWindowFilter_isFull :: "'a MovingWindowFilter_scheme \<Rightarrow> bool" where
  "MovingWindowFilter_isFull self = rb_isFull (filtering_buffer self)"

definition MovingWindowFilter_clear ::
  "'a MovingWindowFilter_scheme \<Rightarrow> 'a MovingWindowFilter_scheme" where
  "MovingWindowFilter_clear self =
     (let self1 = self\<lparr>filtering_buffer := rb_clear (filtering_buffer self)\<rparr>
      in case events self1 of
           None \<Rightarrow> self1
         | Some d \<Rightarrow> if items d = [] then self1
                     else self1\<lparr>events := Some (d\<lparr>items := []\<rparr>)\<rparr>)"

text \<open>Storing a Python value into the float buffer: numpy takes a float, and an array of
  exactly one element; any other array is refused.\<close>

definition as_float :: "pyval \<Rightarrow> error + real" where
  "as_float v = (case v of Num x \<Rightarrow> Inr x
                 | Arr xs \<Rightarrow> (case xs of [x] \<Rightarrow> Inr x | _ \<Rightarrow> Inl ValueError))"

text \<open>\<open>event[i]\<close> and \<open>event[i] = v\<close> on an event of the store.\<close>

definition event_get :: "heap \<Rightarrow> ref \<Rightarrow> nat \<Rightarrow> error + pyval" where
  "event_get h r i = (if i < length (h r) then Inr (h r ! i) else Inl IndexError)"

definition event_set :: "heap \<Rightarrow> sample \<Rightarrow> nat \<Rightarrow> pyval \<Rightarrow> error + heap" where
  "event_set h e i v =
     (case e of
        Scalar _ \<Rightarrow> Inl TypeError
      | Event r \<Rightarrow> if i < length (h r) then Inr (h(r := (h r)[i := v]))
                   else Inl IndexError)"

text \<open>
  The statement \<open>return self._events[self._active_index], self.filteredValue()\<close>.
  \<open>fv\<close> is the \<open>filteredValue\<close> method of the object's class, which subclasses
  override.
\<close>

definition return_tapped ::
  "('a MovingWindowFilter_scheme \<Rightarrow> error + pyval) \<Rightarrow> heap
     \<Rightarrow> 'a MovingWindowFilter_scheme \<Rightarrow> deque
     \<Rightarrow> error + heap \<times> 'a MovingWindowFilter_scheme \<times> add_result option" where
  "return_tapped fv h self d =
     (case deque_get d (active_index self) of
        Inl e \<Rightarrow> Inl e
      | Inr t \<Rightarrow> (case fv self of
                   Inl e \<Rightarrow> Inl e
                 | Inr v \<Rightarrow> Inr (h, self, Some (Some t, v))))"

text \<open>
  \<open>MovingWindowFilter.add\<close>. The result is the store, the filter and what the call
  returns (\<open>None\<close> while the window is not full). In the assignment
  \<open>self._events[k][i] = self.filteredValue()\<close> Python evaluates the right-hand side
  first.
\<close>

definition MovingWindowFilter_add ::
  "('a MovingWindowFilter_scheme \<Rightarrow> error + pyval) \<Rightarrow> heap
     \<Rightarrow> 'a MovingWindowFilter_scheme \<Rightarrow> sample
     \<Rightarrow> error + heap \<times> 'a MovingWindowFilter_scheme \<times> add_result option" where
  "MovingWindowFilter_add fv h self event =
     (case event of
        Event r \<Rightarrow>
          (case event_field_index self of
             None \<Rightarrow> Inl TypeError
           | Some i \<Rightarrow>
               (case event_get h r i of
                  Inl e \<Rightarrow> Inl e
                | Inr fld \<Rightarrow>
                    (case as_float fld of
                       Inl e \<Rightarrow> Inl e
                     | Inr x \<Rightarrow>
                         let self1 = self\<lparr>filtering_buffer := rb_append (filtering_buffer self) x\<rparr>
                         in (case events self1 of
                               None \<Rightarrow> Inl AttributeError
                             | Some d \<Rightarrow>
                                 let d1 = deque_append d event;
                                     self2 = self1\<lparr>events := Some d1\<rparr>
                                 in if MovingWindowFilter_isFull self2 then
                                      (if inplace self2 then
                                         (case fv self2 of
                                            Inl e \<Rightarrow> Inl e
                                          | Inr v \<Rightarrow>
                                              (case deque_get d1 (active_index self2) of
                                                 Inl e \<Rightarrow> Inl e
                                               | Inr t \<Rightarrow>
                                                   (case event_set h t i v of
                                                      Inl e \<Rightarrow> Inl e
                                                    | Inr h1 \<Rightarrow> return_tapped fv h1 self2 d1)))
                                       else return_tapped fv h self2 d1)
                                    else Inr (h, self2, None)))))
      | Scalar x \<Rightarrow>
          let self1 = self\<lparr>filtering_buffer := rb_append (filtering_buffer self) x\<rparr>
          in if MovingWindowFilter_isFull self1 then
               (case fv self1 of
                  Inl e \<Rightarrow> Inl e
                | Inr v \<Rightarrow> Inr (h, self1, Some (None, v)))
             else Inr (h, self1, None))"

subsection \<open>WeightedAverageFilter\<close>







subsection \<open>StampFilter\<close>

text \<open>A \<open>StampFilter\<close> object: its level, the fields it inherits from
  \<open>MovingWindowFilter\<close>, and its sub-filter.\<close>

datatype StampFilter =
  StampFilter (level: int) (window: MovingWindowFilter) (sub_filter: "StampFilter option")

function StampFilter_init :: "bool \<Rightarrow> int \<Rightarrow> nat option \<Rightarrow> error + StampFilter" where
  "StampFilter_init inpl lvl field =
     (case MovingWindowFilter_init inpl (KnotStr ''center'') 3 field of
        Inl e \<Rightarrow> Inl e
      | Inr w \<Rightarrow>
          if lvl > 1 then
            (case StampFilter_init False (lvl - 1) field of
               Inl e \<Rightarrow> Inl e
             | Inr s \<Rightarrow> Inr (StampFilter lvl w (Some s)))
          else Inr (StampFilter lvl w None))"
  by pat_completeness auto
termination
  by (relation "measure (\<lambda>(inpl, lvl, field). nat lvl)") auto

text \<open>\<open>e1, e2, e3 = self._filtering_buffer[0:3]\<close> fails with a ValueError unless the
  slice has exactly three values.\<close>

fun StampFilter_filteredValue :: "StampFilter \<Rightarrow> error + pyval" where
  "StampFilter_filteredValue (StampFilter lvl w (Some s)) = StampFilter_filteredValue s"
| "StampFilter_filteredValue (StampFilter lvl w None) =
     (case rb_slice (filtering_buffer w) 0 3 of
        [e1, e2, e3] \<Rightarrow>
          if \<not> (e1 < e2 \<and> e2 < e3) \<or> \<not> (e3 < e2 \<and> e2 < e1)
          then Inr (Num ((e1 + e3) / 2))
          else Inr (Num e2)
      | _ \<Rightarrow> Inl ValueError)"

text \<open>The two statements under \<open>if sub_result:\<close> in \<open>StampFilter.add\<close>.\<close>

definition take_sub_result ::
  "MovingWindowFilter \<Rightarrow> sample \<Rightarrow> add_result option \<Rightarrow> error + MovingWindowFilter" where
  "take_sub_result w event sub_result =
     (case sub_result of
        None \<Rightarrow> Inr w
      | Some (t, v) \<Rightarrow>
          (case as_float v of
             Inl e \<Rightarrow> Inl e
           | Inr x \<Rightarrow>
               let w1 = w\<lparr>filtering_buffer := rb_append (filtering_buffer w) x\<rparr>
               in (case events w1 of
                     None \<Rightarrow> Inl AttributeError
                   | Some d \<Rightarrow> Inr (w1\<lparr>events := Some (deque_append d event)\<rparr>))))"

fun StampFilter_add ::
  "heap \<Rightarrow> StampFilter \<Rightarrow> sample \<Rightarrow> error + heap \<times> StampFilter \<times> add_result option" where
  "StampFilter_add h (StampFilter lvl w None) event =
     (case MovingWindowFilter_add
             (\<lambda>w'. StampFilter_filteredValue (StampFilter lvl w' None)) h w event of
        Inl e \<Rightarrow> Inl e
      | Inr (h1, w1, r) \<Rightarrow> Inr (h1, StampFilter lvl w1 None, r))"
| "StampFilter_add h (StampFilter lvl w (Some s)) event =
     (case StampFilter_add h s event of
        Inl e \<Rightarrow> Inl e
      | Inr (h1, s1, sub_result) \<Rightarrow>
          (case take_sub_result w event sub_result of
             Inl e \<Rightarrow> Inl e
           | Inr w1 \<Rightarrow>
               (case MovingWindowFilter_add
                       (\<lambda>w'. StampFilter_filteredValue (StampFilter lvl w' (Some s1)))
                       h1 w1 event of
                  Inl e \<Rightarrow> Inl e
                | Inr (h2, w2, r) \<Rightarrow> Inr (h2, StampFilter lvl w2 (Some s1), r))))"

subsection \<open>Feeding a filter\<close>

text \<open>The loop of the module's own driver, \<open>for e in events: r = filter.add(e)\<close>,
  collecting what each call returns. An exception ends the run.\<close>

fun feed ::
  "(heap \<Rightarrow> 'f \<Rightarrow> sample \<Rightarrow> error + heap \<times> 'f \<times> add_result option)
     \<Rightarrow> heap \<Rightarrow> 'f \<Rightarrow> sample list \<Rightarrow> error + heap \<times> 'f \<times> add_result option list" where
  "feed add h f [] = Inr (h, f, [])"
| "feed add h f (e # es) =
     (case add h f e of
        Inl err \<Rightarrow> Inl err
      | Inr (h1, f1, r) \<Rightarrow>
          (case feed add h1 f1 es of
             Inl err \<Rightarrow> Inl err
           | Inr (h2, f2, rs) \<Rightarrow> Inr (h2, f2, r # rs)))"

text \<open>Three events in list form, whose field 0 holds 1, 2 and 3.\<close>

definition three_events :: heap where
  "three_events = (\<lambda>_. [])(0 := [Num 1], 1 := [Num 2], 2 := [Num 3])"

section \<open>Calibration target (psychopy/visual/target.py)\<close>

text \<open>Python 3 floats are modelled as exact reals.\<close>

subsection \<open>The shape primitive\<close>

text \<open>A colour as the constructor takes it: a name, or a tuple of channels.\<close>

datatype color = ColorName string | ColorTuple "real list"

text \<open>
  Modelled from the spec: \<open>ShapeStim\<close> is defined in psychopy.visual.shape, outside the
  two modules verified here. The spec (section 6) describes the shape primitive as exposing
  \<open>vertices\<close>, \<open>size\<close>, \<open>lineWidth\<close>, \<open>fillColor\<close>, \<open>borderColor\<close> and
  \<open>colorSpace\<close>; they are plain attributes here, read back as they were assigned.
  \<open>lineColor\<close> is the constructor's name for \<open>borderColor\<close>. The window, logging
  and drawing are left out.
\<close>

record ShapeStim =
  name :: "string option"
  vertices :: string
  size_wh :: "real \<times> real"
  pos :: "real \<times> real"
  lineWidth :: real
  units :: string
  fillColor :: "color option"
  borderColor :: "color option"
  colorSpace :: string

subsection \<open>TargetStim\<close>

text \<open>\<open>TargetStim\<close> inherits from \<open>ShapeStim\<close>: the inherited fields are the outer
  shape. It adds the inner shape and the attributes \<open>_style\<close> and \<open>_scale\<close>, which
  exist only once they have been set.\<close>

record TargetStim =
  outer :: ShapeStim
  inner :: ShapeStim
  attr_style :: "string option"
  attr_scale :: "real option"

definition knownStyles :: "string list" where
  "knownStyles = [''circles'', ''cross'']"

definition TargetStim_style :: "TargetStim \<Rightarrow> string option" where
  "TargetStim_style self = attr_style self"

definition TargetStim_set_style :: "string \<Rightarrow> TargetStim \<Rightarrow> TargetStim" where
  "TargetStim_set_style v self =
     (let self1 = self\<lparr>attr_style := Some v\<rparr>
      in if v = ''circles'' then
           self1\<lparr>outer := (outer self1)\<lparr>vertices := ''circle''\<rparr>,
                 inner := (inner self1)\<lparr>vertices := ''circle''\<rparr>\<rparr>
         else if v = ''cross'' then
           self1\<lparr>outer := (outer self1)\<lparr>vertices := ''circle''\<rparr>,
                 inner := (inner self1)\<lparr>vertices := ''cross''\<rparr>\<rparr>
         else self1)"

text \<open>\<open>sum(self.size)/2\<close> and \<open>self.size = (value*2, value*2)\<close>.\<close>

definition TargetStim_radius :: "TargetStim \<Rightarrow> real" where
  "TargetStim_radius self = (fst (size_wh (outer self)) + snd (size_wh (outer self))) / 2"

definition TargetStim_set_radius :: "real \<Rightarrow> TargetStim \<Rightarrow> TargetStim" where
  "TargetStim_set_radius v self = self\<lparr>outer := (outer self)\<lparr>size_wh := (v * 2, v * 2)\<rparr>\<rparr>"

definition TargetStim_innerRadius :: "TargetStim \<Rightarrow> real" where
  "TargetStim_innerRadius self =
     (fst (size_wh (inner self)) + snd (size_wh (inner self))) / 2"

definition TargetStim_set_innerRadius :: "real \<Rightarrow> TargetStim \<Rightarrow> TargetStim" where
  "TargetStim_set_innerRadius v self =
     self\<lparr>inner := (inner self)\<lparr>size_wh := (v * 2, v * 2)\<rparr>\<rparr>"

definition TargetStim_scale :: "TargetStim \<Rightarrow> real" where
  "TargetStim_scale self = (case attr_scale self of Some s \<Rightarrow> s | None \<Rightarrow> 1)"

text \<open>The scale setter divides by the old scale; Python raises when that is zero.\<close>

definition TargetStim_set_scale :: "real \<Rightarrow> TargetStim \<Rightarrow> error + TargetStim" where
  "TargetStim_set_scale newScale self =
     (let oldScale = TargetStim_scale self
      in if oldScale = 0 then Inl ZeroDivisionError
         else
           let self1 = TargetStim_set_radius (TargetStim_radius self / oldScale * newScale) self;
               self2 = TargetStim_set_innerRadius
                         (TargetStim_innerRadius self1 / oldScale * newScale) self1
           in Inr (self2\<lparr>attr_scale := Some newScale\<rparr>))"

text \<open>The constructor's arguments, and the defaults of its signature.\<close>

record TargetArgs =
  arg_name :: "string option"
  arg_style :: string
  arg_radius :: real
  arg_fillColor :: "color option"
  arg_borderColor :: "color option"
  arg_lineWidth :: real
  arg_innerRadius :: real
  arg_innerFillColor :: "color option"
  arg_innerBorderColor :: "color option"
  arg_innerLineWidth :: "real option"
  arg_pos :: "real \<times> real"
  arg_units :: "string option"
  arg_colorSpace :: string

definition default_args :: TargetArgs where
  "default_args =
     \<lparr>arg_name = None, arg_style = ''circles'', arg_radius = 5 / 100,
      arg_fillColor = Some (ColorTuple [1, 1, 1, 1 / 10]),
      arg_borderColor = Some (ColorName ''white''), arg_lineWidth = 2,
      arg_innerRadius = 1 / 100, arg_innerFillColor = Some (ColorName ''red''),
      arg_innerBorderColor = None, arg_innerLineWidth = None,
      arg_pos = (0, 0), arg_units = Some ''height'', arg_colorSpace = ''rgb''\<rparr>"

text \<open>\<open>x or y\<close> for an optional number: \<open>None\<close> and zero are both false.\<close>

definition or_number :: "real option \<Rightarrow> real \<Rightarrow> real" where
  "or_number x y = (case x of None \<Rightarrow> y | Some v \<Rightarrow> if v = 0 then y else v)"

text \<open>\<open>units or ''\<close>: \<open>None\<close> and the empty string are both false.\<close>

definition or_string :: "string option \<Rightarrow> string \<Rightarrow> string" where
  "or_string x y = (case x of None \<Rightarrow> y | Some v \<Rightarrow> if v = [] then y else v)"

text \<open>\<open>TargetStim.__init__\<close>. \<open>name + "Inner"\<close> raises a TypeError when \<open>name\<close> is
  \<open>None\<close>, which is its default.\<close>

definition TargetStim_init :: "TargetArgs \<Rightarrow> error + TargetStim" where
  "TargetStim_init a =
     (case arg_name a of
        None \<Rightarrow> Inl TypeError
      | Some n \<Rightarrow>
          Inr (TargetStim_set_style (arg_style a)
            \<lparr>outer =
               \<lparr>name = arg_name a, vertices = ''circle'',
                size_wh = (arg_radius a * 2, arg_radius a * 2), pos = arg_pos a,
                lineWidth = arg_lineWidth a, units = or_string (arg_units a) [],
                fillColor = arg_fillColor a, borderColor = arg_borderColor a,
                colorSpace = arg_colorSpace a\<rparr>,
             inner =
               \<lparr>name = Some (n @ ''Inner''), vertices = ''circle'',
                size_wh = (arg_innerRadius a * 2, arg_innerRadius a * 2), pos = arg_pos a,
                lineWidth = or_number (arg_innerLineWidth a) (arg_lineWidth a),
                units = or_string (arg_units a) [],
                fillColor = arg_innerFillColor a, borderColor = arg_innerBorderColor a,
                colorSpace = arg_colorSpace a\<rparr>,
             attr_style = None, attr_scale = None\<rparr>))"



section \<open>Properties of the event filters\<close>

lemmas filter_defs = NumPyRingBuffer_new_def rb_append_def rb_isFull_def rb_slice_def
  rb_mean_def deque_new_def deque_append_def deque_get_def MovingWindowFilter_init_def
  MovingWindowFilter_isFull_def MovingWindowFilter_add_def as_float_def event_get_def
  event_set_def return_tapped_def take_sub_result_def MovingWindowFilter_filteredValue_def
  Let_def

subsection \<open>The Stampe filter at level 1\<close>

text \<open>
  The two comparisons of \<open>StampFilter.filteredValue\<close> are joined by \<open>or\<close>: a window
  cannot be increasing and decreasing at once, so one of the two negations always holds
  and a filter without sub-filter averages the first and third sample of every window.
\<close>

lemma StampFilter_level1_value:
  "elements (filtering_buffer w) = [e1, e2, e3] \<Longrightarrow>
   StampFilter_filteredValue (StampFilter lvl w None) = Inr (Num ((e1 + e3) / 2))"
  by (auto simp: rb_slice_def)

text \<open>
  Claim C1 says that a level-1 Stampe filter returns the middle sample of a strictly
  monotonic window unchanged, and the average of the first and third sample otherwise.
  The class docstring says the same (\<open>Otherwise v2 is returned unmodified\<close>). The code
  does not: a level-1 filter fed the increasing samples 1, 2, 4 returns nothing twice and
  then 5/2, not the middle sample 2.
\<close>

theorem StampFilter_level1_averages_monotonic_window:
  "\<exists>f. StampFilter_init False 1 None = Inr f \<and>
     (\<exists>h' f'. feed StampFilter_add (\<lambda>_. []) f [Scalar 1, Scalar 2, Scalar 4]
        = Inr (h', f', [None, None, Some (None, Num (5 / 2))]))"
  by (simp add: filter_defs)

subsection \<open>The Stampe filter at level 2\<close>

text \<open>
  Claim C4 says that a level-2 Stampe filter returns nothing on the first four
  submissions, its first output coming with the fifth sample at the earliest. In the code
  \<open>StampFilter.add\<close> ends with \<open>MovingWindowFilter.add(self, event)\<close>, which puts
  every raw sample into the outer window as well: fed three events, the filter already
  returns the third event with the sub-filter's value on the third submission. Fed bare
  numbers, the third submission raises an AttributeError, because the outer filter appends
  to an event deque it does not have.
\<close>

theorem StampFilter_level2_output_on_third_submission:
  "(\<exists>f. StampFilter_init False 2 (Some 0) = Inr f \<and>
      (\<exists>h' f'. feed StampFilter_add three_events f [Event 0, Event 1, Event 2]
         = Inr (h', f', [None, None, Some (Some (Event 2), Num 2)])))
   \<and> (\<exists>f. StampFilter_init False 2 None = Inr f \<and>
         feed StampFilter_add (\<lambda>_. []) f [Scalar 1, Scalar 2, Scalar 3]
           = Inl AttributeError)"
  by (simp add: filter_defs three_events_def)

subsection \<open>Construction of a moving-window filter\<close>

text \<open>
  Claim C8: for a window length of at least 1, \<open>MovingWindowFilter.__init__\<close> raises
  exactly when \<open>knot_pos\<close> is a string other than center, latest and oldest, or center
  with an even length, or a number outside \<open>[0, length)\<close>; what it raises is a
  ValueError. When it succeeds, the tap index is \<open>length div 2\<close> for center, 0 for
  latest, \<open>length - 1\<close> for oldest and the number itself otherwise, it lies in
  \<open>[0, length)\<close>, and the buffer has capacity \<open>length\<close>.
\<close>

theorem MovingWindowFilter_init_knot_pos:
  assumes "1 \<le> len"
  shows "((\<exists>e. MovingWindowFilter_init inpl knot_pos len field = Inl e) \<longleftrightarrow>
           (case knot_pos of
              KnotStr s \<Rightarrow>
                s \<notin> {''center'', ''latest'', ''oldest''} \<or> (s = ''center'' \<and> even len)
            | KnotIndex k \<Rightarrow> k < 0 \<or> len \<le> k))
    \<and> (\<forall>e. MovingWindowFilter_init inpl knot_pos len field = Inl e \<longrightarrow> e = ValueError)
    \<and> (\<forall>f. MovingWindowFilter_init inpl knot_pos len field = Inr f \<longrightarrow>
          active_index f =
            (case knot_pos of
               KnotStr s \<Rightarrow> if s = ''center'' then len div 2
                             else if s = ''latest'' then 0 else len - 1
             | KnotIndex k \<Rightarrow> k)
          \<and> 0 \<le> active_index f \<and> active_index f < len
          \<and> max_size (filtering_buffer f) = nat len)"
  using assms
  by (auto simp: MovingWindowFilter_init_def NumPyRingBuffer_new_def
           split: knot.splits if_splits)

theorem MovingWindowFilter_init_knot_pos_witness:
  "(1::int) \<le> 3
   \<and> (\<exists>f. MovingWindowFilter_init False (KnotStr ''center'') 3 None = Inr f
          \<and> active_index f = 1 \<and> max_size (filtering_buffer f) = 3)
   \<and> MovingWindowFilter_init False (KnotStr ''middle'') 3 None = Inl ValueError"
proof -
  have len: "(1::int) \<le> 3" by simp
  obtain f where f: "MovingWindowFilter_init False (KnotStr ''center'') 3 None = Inr f"
    by (simp add: MovingWindowFilter_init_def)
  have "\<exists>e. MovingWindowFilter_init False (KnotStr ''middle'') 3 None = Inl e"
    using MovingWindowFilter_init_knot_pos [OF len, of False "KnotStr ''middle''" None]
    by simp
  then have bad: "MovingWindowFilter_init False (KnotStr ''middle'') 3 None = Inl ValueError"
    using MovingWindowFilter_init_knot_pos [OF len, of False "KnotStr ''middle''" None]
    by blast
  have "active_index f = 1 \<and> max_size (filtering_buffer f) = 3"
    using MovingWindowFilter_init_knot_pos [OF len, of False "KnotStr ''center''" None] f
    by simp
  with f bad show ?thesis by simp
qed

subsection \<open>The window stays full\<close>

lemma rb_append_full:
  assumes "rb_isFull b"
  shows "rb_isFull (rb_append b x)"
    and "max_size (rb_append b x) = max_size b"
    and "elements (rb_append b x) = drop 1 (elements b @ [x])"
  using assms by (auto simp: rb_isFull_def rb_append_def Let_def)

lemma MovingWindowFilter_add_buffer:
  assumes "MovingWindowFilter_add fv h f e = Inr (h', f', r)"
  shows "\<exists>x. filtering_buffer f' = rb_append (filtering_buffer f) x"
  using assms
  by (auto simp: MovingWindowFilter_add_def return_tapped_def Let_def
           split: sample.splits option.splits sum.splits if_splits)

lemma MovingWindowFilter_add_output:
  assumes "MovingWindowFilter_add fv h f e = Inr (h', f', r)"
  shows "r \<noteq> None \<longleftrightarrow> MovingWindowFilter_isFull f'"
  using assms
  by (auto simp: MovingWindowFilter_add_def return_tapped_def Let_def MovingWindowFilter_isFull_def
           split: sample.splits option.splits sum.splits if_splits)

lemma drop_append_step:
  "drop n (drop 1 (E @ [x]) @ xs) = drop (Suc n) (E @ x # xs)"
proof -
  have "drop 1 (E @ [x]) @ xs = drop 1 (E @ x # xs)"
    by (cases E) simp_all
  then have "drop n (drop 1 (E @ [x]) @ xs) = drop n (drop 1 (E @ x # xs))"
    by (rule arg_cong)
  also have "\<dots> = drop (Suc n) (E @ x # xs)"
    by (simp only: drop_drop) simp
  finally show ?thesis .
qed

text \<open>
  Claim C6: once the window of a moving-window filter is full, it stays full: a run of
  adds that starts from a full filter and raises nothing, whatever is submitted and
  whatever reduction the class uses, ends with a full window of the same capacity. Each
  append evicts the oldest sample only: the window then holds the old samples followed by
  one appended value per add, without the first as many. Every add of the run returns a
  result.
\<close>

theorem MovingWindowFilter_full_stays_full:
  assumes "MovingWindowFilter_isFull f"
    and "feed (MovingWindowFilter_add fv) h f es = Inr (h', f', rs)"
  shows "MovingWindowFilter_isFull f'
    \<and> max_size (filtering_buffer f') = max_size (filtering_buffer f)
    \<and> (\<exists>xs. length xs = length es
          \<and> elements (filtering_buffer f') = drop (length es) (elements (filtering_buffer f) @ xs))
    \<and> length rs = length es \<and> None \<notin> set rs"
  using assms
proof (induction es arbitrary: h f h' f' rs)
  case Nil
  then show ?case by simp
next
  case (Cons e es)
  from Cons.prems(2) obtain h1 f1 r rs1 where
    step: "MovingWindowFilter_add fv h f e = Inr (h1, f1, r)"
    and rest: "feed (MovingWindowFilter_add fv) h1 f1 es = Inr (h', f', rs1)"
    and rs: "rs = r # rs1"
    by (auto split: sum.splits prod.splits)
  from MovingWindowFilter_add_buffer [OF step] obtain x where
    x: "filtering_buffer f1 = rb_append (filtering_buffer f) x" by blast
  have full: "rb_isFull (filtering_buffer f)"
    using Cons.prems(1) by (simp add: MovingWindowFilter_isFull_def)
  have f1: "MovingWindowFilter_isFull f1"
    "max_size (filtering_buffer f1) = max_size (filtering_buffer f)"
    "elements (filtering_buffer f1) = drop 1 (elements (filtering_buffer f) @ [x])"
    using rb_append_full [OF full, of x] x by (simp_all add: MovingWindowFilter_isFull_def)
  from Cons.IH [OF f1(1) rest] obtain xs where
    ih: "MovingWindowFilter_isFull f'"
      "max_size (filtering_buffer f') = max_size (filtering_buffer f1)"
      "length xs = length es"
      "elements (filtering_buffer f') = drop (length es) (elements (filtering_buffer f1) @ xs)"
      "length rs1 = length es" "None \<notin> set rs1"
    by blast
  have r: "r \<noteq> None"
    using MovingWindowFilter_add_output [OF step] f1(1) by simp
  have "elements (filtering_buffer f')
          = drop (Suc (length es)) (elements (filtering_buffer f) @ x # xs)"
    using ih(4) f1(3) by (simp only: drop_append_step)
  then have "\<exists>ys. length ys = length (e # es)
     \<and> elements (filtering_buffer f') = drop (length (e # es)) (elements (filtering_buffer f) @ ys)"
    using ih(3) by (intro exI [of _ "x # xs"]) simp
  moreover have "max_size (filtering_buffer f') = max_size (filtering_buffer f)"
    using ih(2) f1(2) by simp
  moreover have "length rs = length (e # es)" "None \<notin> set rs"
    using ih(5,6) r rs by auto
  ultimately show ?case using ih(1) by blast
qed


theorem MovingWindowFilter_full_stays_full_witness:
  "\<exists>f0 f rs0 f' rs.
     MovingWindowFilter_init False (KnotStr ''latest'') 2 None = Inr f0
     \<and> feed (MovingWindowFilter_add MovingWindowFilter_filteredValue) (\<lambda>_. []) f0
           [Scalar 1, Scalar 2] = Inr ((\<lambda>_. []), f, rs0)
     \<and> MovingWindowFilter_isFull f
     \<and> feed (MovingWindowFilter_add MovingWindowFilter_filteredValue) (\<lambda>_. []) f
           [Scalar 3, Scalar 4] = Inr ((\<lambda>_. []), f', rs)
     \<and> MovingWindowFilter_isFull f'
     \<and> max_size (filtering_buffer f') = 2
     \<and> elements (filtering_buffer f') = [3, 4]"
proof -
  let ?win = "\<lambda>es. \<lparr>inplace = False, active_index = 0, event_field_index = None,
    events = None, filtering_buffer = \<lparr>max_size = 2, elements = es\<rparr>\<rparr>"
  have f0: "MovingWindowFilter_init False (KnotStr ''latest'') 2 None = Inr (?win [])"
    by (simp add: MovingWindowFilter_init_def NumPyRingBuffer_new_def)
  have f: "feed (MovingWindowFilter_add MovingWindowFilter_filteredValue) (\<lambda>_. []) (?win [])
           [Scalar 1, Scalar 2] = Inr ((\<lambda>_. []), ?win [1, 2], [None, Some (None, Num (3 / 2))])"
    by (simp add: filter_defs)
  have full: "MovingWindowFilter_isFull (?win [1, 2])"
    by (simp add: MovingWindowFilter_isFull_def rb_isFull_def)
  have f': "feed (MovingWindowFilter_add MovingWindowFilter_filteredValue) (\<lambda>_. []) (?win [1, 2])
           [Scalar 3, Scalar 4]
         = Inr ((\<lambda>_. []), ?win [3, 4], [Some (None, Num (5 / 2)), Some (None, Num (7 / 2))])"
    by (simp add: filter_defs)
  from MovingWindowFilter_full_stays_full [OF full f'] have "MovingWindowFilter_isFull (?win [3, 4])"
    "max_size (filtering_buffer (?win [3, 4])) = 2" by simp_all
  moreover have "elements (filtering_buffer (?win [3, 4])) = [3, 4]" by simp
  moreover note f0 f full f'
  ultimately have "MovingWindowFilter_init False (KnotStr ''latest'') 2 None = Inr (?win [])
     \<and> feed (MovingWindowFilter_add MovingWindowFilter_filteredValue) (\<lambda>_. []) (?win [])
           [Scalar 1, Scalar 2]
         = Inr ((\<lambda>_. []), ?win [1, 2], [None, Some (None, Num (3 / 2))])
     \<and> MovingWindowFilter_isFull (?win [1, 2])
     \<and> feed (MovingWindowFilter_add MovingWindowFilter_filteredValue) (\<lambda>_. []) (?win [1, 2])
           [Scalar 3, Scalar 4]
         = Inr ((\<lambda>_. []), ?win [3, 4], [Some (None, Num (5 / 2)), Some (None, Num (7 / 2))])
     \<and> MovingWindowFilter_isFull (?win [3, 4])
     \<and> max_size (filtering_buffer (?win [3, 4])) = 2
     \<and> elements (filtering_buffer (?win [3, 4])) = [3, 4]"
    by (intro conjI)
  then show ?thesis
    by (intro exI)
qed

subsection \<open>What a run of bare numbers returns\<close>

text \<open>
  The window after the samples \<open>pre\<close> holds the last \<open>L\<close> of them. A reduction that
  depends on the window alone gives, sample after sample, nothing until the window is
  full and its value on the last \<open>L\<close> samples from then on.
\<close>

lemma rb_append_window:
  assumes "max_size b = L" and "elements b = drop (length pre - L) pre"
  shows "max_size (rb_append b x) = L"
    and "elements (rb_append b x) = drop (length (pre @ [x]) - L) (pre @ [x])"
proof -
  show "max_size (rb_append b x) = L"
    using assms(1) by (simp add: rb_append_def Let_def)
  show "elements (rb_append b x) = drop (length (pre @ [x]) - L) (pre @ [x])"
  proof (cases "length pre < L")
    case True
    with assms show ?thesis by (simp add: rb_append_def Let_def)
  next
    case False
    then have "length (drop (length pre - L) pre @ [x]) - L = 1" by simp
    then have "elements (rb_append b x) = drop 1 (drop (length pre - L) pre @ [x])"
      using assms by (simp add: rb_append_def Let_def)
    also have "\<dots> = drop 1 (drop (length pre - L) (pre @ [x]))"
      using False by simp
    also have "\<dots> = drop (length (pre @ [x]) - L) (pre @ [x])"
      using False by (simp only: drop_drop) (simp add: Suc_diff_le)
    finally show ?thesis .
  qed
qed

lemma add_scalar:
  "MovingWindowFilter_add fv h f (Scalar x) =
     (if rb_isFull (rb_append (filtering_buffer f) x) then
        (case fv (f\<lparr>filtering_buffer := rb_append (filtering_buffer f) x\<rparr>) of
           Inl e \<Rightarrow> Inl e
         | Inr v \<Rightarrow> Inr (h, f\<lparr>filtering_buffer := rb_append (filtering_buffer f) x\<rparr>, Some (None, v)))
      else Inr (h, f\<lparr>filtering_buffer := rb_append (filtering_buffer f) x\<rparr>, None))"
  by (simp add: MovingWindowFilter_add_def MovingWindowFilter_isFull_def Let_def)

lemma add_scalar_window:
  assumes m: "max_size (filtering_buffer f) = L"
    and el: "elements (filtering_buffer f) = drop (length pre - L) pre"
    and fv: "\<And>b. length (elements b) = L \<Longrightarrow>
               fv (f\<lparr>filtering_buffer := b\<rparr>) = Inr (g (elements b))"
  shows "MovingWindowFilter_add fv h f (Scalar x) =
     Inr (h, f\<lparr>filtering_buffer := rb_append (filtering_buffer f) x\<rparr>,
          if Suc (length pre) < L then None
          else Some (None, g (drop (Suc (length pre) - L) (pre @ [x]))))"
proof -
  let ?b = "rb_append (filtering_buffer f) x"
  have b: "max_size ?b = L" "elements ?b = drop (length (pre @ [x]) - L) (pre @ [x])"
    using rb_append_window [OF m el] by simp_all
  have full: "rb_isFull ?b \<longleftrightarrow> \<not> Suc (length pre) < L"
    using b by (auto simp: rb_isFull_def)
  show ?thesis
  proof (cases "Suc (length pre) < L")
    case True
    with full show ?thesis by (simp add: add_scalar)
  next
    case False
    with full have f: "rb_isFull ?b" by simp
    then have len: "length (elements ?b) = L" using b(1) by (simp add: rb_isFull_def)
    have "fv (f\<lparr>filtering_buffer := ?b\<rparr>) = Inr (g (elements ?b))"
      using len by (rule fv)
    also have "elements ?b = drop (Suc (length pre) - L) (pre @ [x])"
      using b(2) by (simp only: length_append_singleton)
    finally have "fv (f\<lparr>filtering_buffer := ?b\<rparr>)
        = Inr (g (drop (Suc (length pre) - L) (pre @ [x])))" .
    with f False show ?thesis
      by (simp add: add_scalar)
  qed
qed

lemma feed_scalars_window:
  assumes "max_size (filtering_buffer f) = L"
    and "elements (filtering_buffer f) = drop (length pre - L) pre"
    and "\<And>b. length (elements b) = L \<Longrightarrow>
               fv (f\<lparr>filtering_buffer := b\<rparr>) = Inr (g (elements b))"
  shows "\<exists>f'. feed (MovingWindowFilter_add fv) h f (map Scalar xs)
     = Inr (h, f', map (\<lambda>n. if n < L then None
                          else Some (None, g (drop (n - L) (take n (pre @ xs)))))
                       [Suc (length pre)..<Suc (length pre + length xs)])"
  using assms
proof (induction xs arbitrary: f pre)
  case Nil
  then show ?case by simp
next
  case (Cons x xs)
  let ?f1 = "f\<lparr>filtering_buffer := rb_append (filtering_buffer f) x\<rparr>"
  have b: "max_size (filtering_buffer ?f1) = L"
    "elements (filtering_buffer ?f1) = drop (length (pre @ [x]) - L) (pre @ [x])"
    using rb_append_window [OF Cons.prems(1,2)] by simp_all
  have fv1: "\<And>b. length (elements b) = L \<Longrightarrow>
               fv (?f1\<lparr>filtering_buffer := b\<rparr>) = Inr (g (elements b))"
    using Cons.prems(3) by simp
  from Cons.IH [OF b fv1] obtain f' where
    ih: "feed (MovingWindowFilter_add fv) h ?f1 (map Scalar xs)
     = Inr (h, f', map (\<lambda>n. if n < L then None
                          else Some (None, g (drop (n - L) (take n ((pre @ [x]) @ xs)))))
                       [Suc (length (pre @ [x]))..<Suc (length (pre @ [x]) + length xs)])"
    by blast
  have upt: "[Suc (length pre)..<Suc (length pre + length (x # xs))]
      = Suc (length pre) # [Suc (length (pre @ [x]))..<Suc (length (pre @ [x]) + length xs)]"
    by (subst upt_rec) simp
  have tk: "take (Suc (length pre)) (pre @ x # xs) = pre @ [x]" by simp
  show ?case
    unfolding upt
    using ih add_scalar_window [of f L pre fv g h x, OF Cons.prems]
    by (simp add: tk del: upt_Suc)
qed

lemma init_buffer:
  assumes "MovingWindowFilter_init inpl knot_pos len field = Inr f"
  shows "filtering_buffer f = NumPyRingBuffer_new (nat len)"
  using assms
  by (auto simp: MovingWindowFilter_init_def split: sum.splits)

text \<open>
  Claim C5: for a mean filter of window length \<open>L \<ge> 1\<close> fed bare numbers, the
  \<open>n\<close>-th add returns nothing while \<open>n < L\<close>, and from the \<open>L\<close>-th on it returns
  \<open>(None, v)\<close> where \<open>v\<close> is the sum of the last \<open>L\<close> of the first \<open>n\<close> samples
  divided by \<open>L\<close>. No add raises, and the store is left as it was.
\<close>

theorem MovingWindowFilter_add_mean:
  assumes "1 \<le> L"
    and "MovingWindowFilter_init inpl knot_pos (int L) field = Inr f"
  shows "\<exists>f'. feed (MovingWindowFilter_add MovingWindowFilter_filteredValue) h f (map Scalar xs)
     = Inr (h, f', map (\<lambda>n. if n < L then None
                          else Some (None, Num (sum_list (drop (n - L) (take n xs)) / real L)))
                       [1..<Suc (length xs)])"
proof -
  have m: "max_size (filtering_buffer f) = L"
    and e: "elements (filtering_buffer f) = drop (length ([]::real list) - L) []"
    using init_buffer [OF assms(2)] by (simp_all add: NumPyRingBuffer_new_def)
  have fv: "MovingWindowFilter_filteredValue (f\<lparr>filtering_buffer := b\<rparr>)
      = Inr (Num (sum_list (elements b) / real L))" if "length (elements b) = L" for b
    using that assms(1) by (auto simp: MovingWindowFilter_filteredValue_def rb_mean_def)
  from feed_scalars_window [of f L "[]" MovingWindowFilter_filteredValue
      "\<lambda>es. Num (sum_list es / real L)" h xs, OF m e fv]
  show ?thesis
    by (simp del: upt_Suc cong: if_cong)
qed

theorem MovingWindowFilter_add_mean_witness:
  "(1::nat) \<le> 2 \<and>
   (\<exists>f f'. MovingWindowFilter_init False (KnotStr ''latest'') (int 2) None = Inr f
      \<and> feed (MovingWindowFilter_add MovingWindowFilter_filteredValue) (\<lambda>_. []) f
           (map Scalar [1, 3, 5])
         = Inr ((\<lambda>_. []), f', [None, Some (None, Num 2), Some (None, Num 4)]))"
proof -
  have L: "(1::nat) \<le> 2" by simp
  obtain f where f: "MovingWindowFilter_init False (KnotStr ''latest'') (int 2) None = Inr f"
    by (simp add: MovingWindowFilter_init_def)
  have "[1..<Suc (length [1, 3, 5::real])] = [1, 2, 3]"
    by (simp add: upt_rec)
  with MovingWindowFilter_add_mean [OF L f, of "\<lambda>_. []" "[1, 3, 5]"] f L show ?thesis
    by (simp del: upt_Suc)
qed






section \<open>Properties of the calibration target\<close>

lemmas target_defs = TargetStim_init_def default_args_def TargetStim_set_style_def
  TargetStim_style_def or_number_def or_string_def Let_def

subsection \<open>Radius and scale\<close>

text \<open>
  Claim C2 says that the radius getter returns the average of the shape's half-width and
  half-height, so that reading \<open>radius\<close> after setting it to \<open>r\<close> gives \<open>r\<close>. The
  setter (like the constructor) stores the size \<open>(2r, 2r)\<close>, but the getter returns
  \<open>sum(size)/2\<close>, the sum of the half-width and the half-height and not their
  average: reading after setting \<open>r\<close> gives \<open>2r\<close>, for the outer and for the inner
  radius.
\<close>

theorem TargetStim_radius_after_set_radius:
  "TargetStim_radius self
     = fst (size_wh (outer self)) / 2 + snd (size_wh (outer self)) / 2
   \<and> TargetStim_innerRadius self
     = fst (size_wh (inner self)) / 2 + snd (size_wh (inner self)) / 2
   \<and> TargetStim_radius (TargetStim_set_radius r self) = 2 * r
   \<and> TargetStim_innerRadius (TargetStim_set_innerRadius r self) = 2 * r"
  by (simp add: TargetStim_radius_def TargetStim_set_radius_def
        TargetStim_innerRadius_def TargetStim_set_innerRadius_def add_divide_distrib)

text \<open>Each call of the scale setter multiplies both observable radii by twice the ratio
  of the new scale to the old one.\<close>

lemma TargetStim_set_scale_radii:
  "TargetStim_scale self \<noteq> 0 \<Longrightarrow>
   \<exists>t. TargetStim_set_scale s self = Inr t
     \<and> TargetStim_radius t = 2 * (TargetStim_radius self / TargetStim_scale self * s)
     \<and> TargetStim_innerRadius t
         = 2 * (TargetStim_innerRadius self / TargetStim_scale self * s)
     \<and> TargetStim_scale t = s"
  by (simp add: TargetStim_set_scale_def TargetStim_radius_def TargetStim_set_radius_def
        TargetStim_innerRadius_def TargetStim_set_innerRadius_def TargetStim_scale_def
        Let_def)

text \<open>
  Claim C3 says that \<open>set_scale(2.0)\<close> on a target at its default scale 1 doubles the
  radius and the inner radius. A target built with the default radii 0.05 and 0.01 reads
  back the radii 0.1 and 0.02; after the scale is set to 2 it reads back 0.4 and 0.08,
  four times what it read before and eight times the constructor's arguments.
\<close>

theorem TargetStim_set_scale_quadruples_radii:
  "\<exists>t0 t. TargetStim_init (default_args\<lparr>arg_name := Some ''target''\<rparr>) = Inr t0
     \<and> TargetStim_radius t0 = 1 / 10 \<and> TargetStim_innerRadius t0 = 1 / 50
     \<and> TargetStim_scale t0 = 1
     \<and> TargetStim_set_scale 2 t0 = Inr t
     \<and> TargetStim_radius t = 4 / 10 \<and> TargetStim_innerRadius t = 4 / 50"
  by (simp add: target_defs TargetStim_set_scale_def TargetStim_radius_def
        TargetStim_set_radius_def TargetStim_innerRadius_def
        TargetStim_set_innerRadius_def TargetStim_scale_def)

subsection \<open>Style\<close>

text \<open>
  Claim C7 as stated: after the style is set to an unrecognized value, the style read
  back is still the last valid one. The setter stores the value before it looks at it, so
  a target built with the style circles reads back the unrecognized value.
\<close>

theorem TargetStim_set_style_unrecognized_counterexample:
  "\<exists>t. TargetStim_init (default_args\<lparr>arg_name := Some ''target''\<rparr>) = Inr t
     \<and> TargetStim_style t = Some ''circles''
     \<and> TargetStim_style (TargetStim_set_style ''square'' t) \<noteq> Some ''circles''"
  by (simp add: target_defs)

text \<open>
  Claim C7, amended: setting the style to a value other than circles and cross raises
  nothing and changes nothing but the stored style: the vertices of the outer and of the
  inner shape stay as they were, and the style read back is the unrecognized value.
\<close>

theorem TargetStim_set_style_unrecognized:
  assumes "v \<noteq> ''circles''" and "v \<noteq> ''cross''"
  shows "TargetStim_set_style v self = self\<lparr>attr_style := Some v\<rparr>
    \<and> vertices (outer (TargetStim_set_style v self)) = vertices (outer self)
    \<and> vertices (inner (TargetStim_set_style v self)) = vertices (inner self)
    \<and> TargetStim_style (TargetStim_set_style v self) = Some v"
  using assms by (simp add: TargetStim_set_style_def TargetStim_style_def)

theorem TargetStim_set_style_unrecognized_witness:
  "\<exists>t. TargetStim_init
          (default_args\<lparr>arg_name := Some ''target'', arg_style := ''cross''\<rparr>) = Inr t
     \<and> TargetStim_style t = Some ''cross''
     \<and> vertices (outer (TargetStim_set_style ''square'' t)) = ''circle''
     \<and> vertices (inner (TargetStim_set_style ''square'' t)) = ''cross''
     \<and> TargetStim_style (TargetStim_set_style ''square'' t) = Some ''square''"
proof -
  obtain t where t: "TargetStim_init
      (default_args\<lparr>arg_name := Some ''target'', arg_style := ''cross''\<rparr>) = Inr t"
    by (simp add: target_defs)
  have a: "''square'' \<noteq> ''circles''" and b: "''square'' \<noteq> ''cross''"
    by simp_all
  from t have v: "vertices (outer t) = ''circle''" "vertices (inner t) = ''cross''"
    "TargetStim_style t = Some ''cross''"
    by (auto simp: target_defs)
  from TargetStim_set_style_unrecognized [OF a b, of t] v t show ?thesis
    by (simp add: TargetStim_style_def)
qed

subsection \<open>Serialization\<close>







end
